theory Spec2Isabelle
  imports Main "HOL-Library.Word" "HOL-Library.Multiset" "HOL-Library.Sublist"
begin

section \<open>Wallet tracker server: a shallow embedding of \<open>server.js\<close>\<close>

text \<open>
  The development follows \<open>src/server.js\<close>. The second copy of the file
  (\<open>src/unnamed/part_000\<close>) is the same program reformatted; where the two differ in
  behaviour (the key of the metadata cache) both variants of the lookup are modelled and
  named. The handlers are modelled with the lookup of \<open>server.js\<close>; those of \<open>part_000\<close>
  differ only in calling their own lookup and in how \<open>valueFormatted\<close> is rendered.

  Conventions of the embedding:
  \<^item> a JavaScript \<open>BigInt\<close> is an \<open>int\<close>; block numbers, log indexes, limits and the
    other integer-valued JavaScript numbers are \<open>int\<close> as well (exact below \<open>2^53\<close>);
  \<^item> an optional query parameter is an \<open>int option\<close> or a \<open>string\<close>: \<open>None\<close> is the
    absent (or empty, hence falsy) parameter, \<open>Some n\<close> the parameter whose text is the
    decimal numeral \<open>n\<close> (the text \<open>"0"\<close> is a non-empty string and therefore truthy);
  \<^item> a thrown error is the \<open>Inl\<close> branch of a sum, with the HTTP status the error
    handler would send;
  \<^item> the module-level bindings (\<open>CONFIG\<close>, the white and black lists, \<open>PROVIDERS\<close>, the
    functions taken from \<open>ethers\<close>) are fields of one record \<open>globals\<close>;
  \<^item> an RPC provider is a record of functions giving, for each call, its outcome;
  \<^item> the metadata cache and the list of log queries sent are threaded as state.
\<close>

subsection \<open>Strings\<close>

text \<open>\<open>String.prototype.toLowerCase\<close> on the ASCII range (addresses and chain keys).\<close>

definition lowerChar :: "char \<Rightarrow> char" where
  "lowerChar c =
     (case map_of (zip ''ABCDEFGHIJKLMNOPQRSTUVWXYZ'' ''abcdefghijklmnopqrstuvwxyz'') c of
        Some d \<Rightarrow> d
      | None \<Rightarrow> c)"

definition toLowerCase :: "string \<Rightarrow> string" where
  "toLowerCase s = map lowerChar s"

subsection \<open>Errors\<close>

datatype error =
    InvalidAddress          \<comment> \<open>\<open>ensureAddress\<close>: "Invalid address", status 400\<close>
  | UnavailableChain        \<comment> \<open>\<open>getProvider\<close>: "Unsupported or unavailable chain", status 400\<close>
  | InvalidToken            \<comment> \<open>query parameter \<open>token\<close> is not an address, status 400\<close>
  | InvalidRange            \<comment> \<open>"'fromBlock' must be <= 'toBlock'", status 400\<close>
  | UpstreamError           \<comment> \<open>a rejected RPC call, no status set\<close>
  | TypeError               \<comment> \<open>a property read on \<open>undefined\<close>, no status set\<close>

text \<open>The error handler: \<open>err.status || 500\<close>.\<close>

fun status :: "error \<Rightarrow> nat" where
  "status InvalidAddress = 400"
| "status UnavailableChain = 400"
| "status InvalidToken = 400"
| "status InvalidRange = 400"
| "status UpstreamError = 500"
| "status TypeError = 500"

text \<open>The validation errors of the specification's taxonomy: a malformed address or token,
  an invalid range.\<close>

fun ValidationError :: "error \<Rightarrow> bool" where
  "ValidationError InvalidAddress = True"
| "ValidationError InvalidToken = True"
| "ValidationError InvalidRange = True"
| "ValidationError _ = False"

subsection \<open>Chain data\<close>

record tx =
  tx_hash :: string
  tx_blockNumber :: int
  tx_from :: "string option"
  tx_to :: "string option"          \<comment> \<open>\<open>null\<close> for a contract creation\<close>
  tx_value :: "int option"

record block =
  timestamp :: int
  transactions :: "tx list"

text \<open>A log as \<open>getLogs\<close> returns it. \<open>data\<close> is the value \<open>BigInt(log.data || "0x0")\<close>
  reads from the payload.\<close>

record log =
  transactionHash :: string
  log_blockNumber :: int
  log_logIndex :: int
  topics :: "string list"
  data :: int

record logquery =
  q_address :: string
  q_fromBlock :: int
  q_toBlock :: int
  q_topics :: "string option list"

record provider =
  getBlockNumber :: "error + int"
  getBlockWithTransactions :: "int \<Rightarrow> error + block option"
  getLogs :: "logquery \<Rightarrow> error + log list"
  call_symbol :: "string \<Rightarrow> error + string"     \<comment> \<open>\<open>symbol()\<close> of the contract at an address\<close>
  call_name :: "string \<Rightarrow> error + string"       \<comment> \<open>\<open>name()\<close>\<close>
  call_decimals :: "string \<Rightarrow> error + 8 word"   \<comment> \<open>\<open>decimals()\<close>, a \<open>uint8\<close>\<close>

subsection \<open>Configuration and module-level bindings\<close>

record config =
  ALLOW_ALL_TOKENS :: bool
  SKIP_ZERO_VALUE :: bool
  MIN_NATIVE_WEI :: int
  MIN_ERC20_RAW :: int

record globals =
  CONFIG :: config
  TOKEN_WHITELIST :: "string \<rightharpoonup> string set"
  TOKEN_BLACKLIST :: "string \<rightharpoonup> string set"
  PROVIDERS :: "string \<rightharpoonup> provider"
  isAddress :: "string \<Rightarrow> bool"                 \<comment> \<open>\<open>ethers.isAddress\<close>\<close>
  ethers_id :: "string \<Rightarrow> string"                \<comment> \<open>\<open>ethers.id\<close>, the hash of a signature\<close>
  formatEther :: "int \<Rightarrow> string"                 \<comment> \<open>\<open>ethers.formatEther\<close>\<close>
  formatUnits :: "int \<Rightarrow> nat \<Rightarrow> string"
    \<comment> \<open>the \<open>valueFormatted\<close> expression around \<open>ethers.formatUnits(raw, decimals)\<close>\<close>

subsection \<open>Filter pipeline\<close>

definition passTokenFilters :: "globals \<Rightarrow> string \<Rightarrow> string \<Rightarrow> int \<Rightarrow> bool" where
  "passTokenFilters g chain token rawValue =
     (if (case TOKEN_BLACKLIST g chain of
            None \<Rightarrow> False
          | Some bl \<Rightarrow> toLowerCase token \<in> bl) then False
      else if SKIP_ZERO_VALUE (CONFIG g) \<and> rawValue = 0 then False
      else if rawValue < MIN_ERC20_RAW (CONFIG g) then False
      else if ALLOW_ALL_TOKENS (CONFIG g) then True
      else (case TOKEN_WHITELIST g chain of
              None \<Rightarrow> True
            | Some wl \<Rightarrow> if wl \<noteq> {} then toLowerCase token \<in> wl else True))"

definition passNativeFilters :: "globals \<Rightarrow> int \<Rightarrow> bool" where
  "passNativeFilters g valueWei =
     (if SKIP_ZERO_VALUE (CONFIG g) \<and> valueWei = 0 then False
      else if valueWei < MIN_NATIVE_WEI (CONFIG g) then False
      else True)"

subsection \<open>Helpers\<close>

definition getProvider :: "globals \<Rightarrow> string \<Rightarrow> error + provider" where
  "getProvider g chain =
     (case PROVIDERS g (toLowerCase chain) of
        None \<Rightarrow> Inl UnavailableChain
      | Some p \<Rightarrow> Inr p)"

definition ensureAddress :: "globals \<Rightarrow> string \<Rightarrow> error + unit" where
  "ensureAddress g addr = (if \<not> isAddress g addr then Inl InvalidAddress else Inr ())"

subsection \<open>Token metadata cache\<close>

record meta =
  symbol :: string
  name :: string
  decimals :: nat

record meta_entry = meta +
  ts :: int

type_synonym cache = "string \<rightharpoonup> meta_entry"

text \<open>\<open>server.js\<close>: the key is \<open>`${chain}:${token.toLowerCase()}`\<close>.\<close>

definition cacheGetErc20Meta :: "cache \<Rightarrow> string \<Rightarrow> string \<Rightarrow> meta_entry option" where
  "cacheGetErc20Meta c chain token = c (chain @ '':'' @ toLowerCase token)"

definition cacheSetErc20Meta :: "cache \<Rightarrow> int \<Rightarrow> string \<Rightarrow> string \<Rightarrow> meta \<Rightarrow> cache" where
  "cacheSetErc20Meta c now chain token m =
     c(chain @ '':'' @ toLowerCase token \<mapsto>
         \<lparr>symbol = symbol m, name = name m, decimals = decimals m, ts = now\<rparr>)"

text \<open>\<open>part_000\<close>: the key also lowercases the chain.\<close>

definition cacheKey :: "string \<Rightarrow> string \<Rightarrow> string" where
  "cacheKey chain token = toLowerCase chain @ '':'' @ toLowerCase token"

definition getCachedMeta :: "cache \<Rightarrow> string \<Rightarrow> string \<Rightarrow> meta_entry option" where
  "getCachedMeta c chain token = c (cacheKey chain token)"

definition setCachedMeta :: "cache \<Rightarrow> int \<Rightarrow> string \<Rightarrow> string \<Rightarrow> meta \<Rightarrow> cache" where
  "setCachedMeta c now chain token m =
     c(cacheKey chain token \<mapsto>
         \<lparr>symbol = symbol m, name = name m, decimals = decimals m, ts = now\<rparr>)"

text \<open>
  The upstream part of \<open>getErc20Meta\<close>, identical in both copies: the provider lookup,
  the three calls with their \<open>catch\<close> fallbacks, and \<open>Number(decimals) || 18\<close>.
\<close>

definition fetchErc20Meta :: "globals \<Rightarrow> string \<Rightarrow> string \<Rightarrow> error + meta" where
  "fetchErc20Meta g chain token =
     (case getProvider g chain of
        Inl e \<Rightarrow> Inl e
      | Inr p \<Rightarrow>
          (let sym = (case call_symbol p token of Inl _ \<Rightarrow> ''UNK'' | Inr s \<Rightarrow> s);
               nm = (case call_name p token of Inl _ \<Rightarrow> ''Unknown Token'' | Inr s \<Rightarrow> s);
               dec = (case call_decimals p token of Inl _ \<Rightarrow> 18 | Inr d \<Rightarrow> unat d)
           in Inr \<lparr>symbol = sym, name = nm, decimals = (if dec \<noteq> 0 then dec else 18)\<rparr>))"

text \<open>
  \<open>getErc20Meta\<close>: a hit younger than six hours (\<open>Date.now() - hit.ts < 6 * 60 * 60 * 1000\<close>)
  is returned as it is (the callers read its \<open>symbol\<close>, \<open>name\<close> and \<open>decimals\<close>); otherwise
  the metadata are fetched, stored with the time \<open>now\<close> and returned.
\<close>

definition getErc20Meta ::
  "globals \<Rightarrow> cache \<Rightarrow> int \<Rightarrow> string \<Rightarrow> string \<Rightarrow> cache \<times> (error + meta)" where
  "getErc20Meta g c now chain token =
     (let refetch = (case fetchErc20Meta g chain token of
                       Inl e \<Rightarrow> (c, Inl e)
                     | Inr m \<Rightarrow> (cacheSetErc20Meta c now chain token m, Inr m))
      in case cacheGetErc20Meta c chain token of
           None \<Rightarrow> refetch
         | Some hit \<Rightarrow>
             if now - ts hit < 6 * 60 * 60 * 1000 then (c, Inr (meta.truncate hit))
             else refetch)"

definition getErc20Meta_part000 ::
  "globals \<Rightarrow> cache \<Rightarrow> int \<Rightarrow> string \<Rightarrow> string \<Rightarrow> cache \<times> (error + meta)" where
  "getErc20Meta_part000 g c now chain token =
     (let refetch = (case fetchErc20Meta g chain token of
                       Inl e \<Rightarrow> (c, Inl e)
                     | Inr m \<Rightarrow> (setCachedMeta c now chain token m, Inr m))
      in case getCachedMeta c chain token of
           None \<Rightarrow> refetch
         | Some hit \<Rightarrow>
             if now - ts hit < 6 * 60 * 60 * 1000 then (c, Inr (meta.truncate hit))
             else refetch)"

subsection \<open>Native transfers: \<open>GET /address/:chain/:address/native\<close>\<close>









subsection \<open>ERC-20 event scans: shared parts\<close>

text \<open>\<open>addrTopic\<close>: \<open>"0x" + a.toLowerCase().replace(/^0x/, "").padStart(64, "0")\<close>.\<close>

definition addrTopic :: "string \<Rightarrow> string" where
  "addrTopic a =
     (let s = toLowerCase a;
          h = (if take 2 s = ''0x'' then drop 2 s else s)
      in ''0x'' @ replicate (64 - length h) (CHR ''0'') @ h)"

record range =
  r_fromBlock :: int
  r_toBlock :: int

definition chunk :: int where
  "chunk = 10000"

text \<open>The loop \<open>for (let start = fromBlock; start <= toBlock; start += chunk)\<close> that
  fills \<open>ranges\<close>.\<close>

function chunkRanges :: "int \<Rightarrow> int \<Rightarrow> range list" where
  "chunkRanges start toBlock =
     (if start \<le> toBlock then
        \<lparr>r_fromBlock = start, r_toBlock = min (start + chunk - 1) toBlock\<rparr>
          # chunkRanges (start + chunk) toBlock
      else [])"
  by pat_completeness auto
termination
  by (relation "measure (\<lambda>(start, toBlock). nat (toBlock - start + 1))")
     (auto simp: chunk_def)

declare chunkRanges.simps [simp del]

text \<open>\<open>Math.min(Number(req.query.limit || 500), 2000)\<close>.\<close>

definition erc20Limit :: "int option \<Rightarrow> int" where
  "erc20Limit q_limit = min (case q_limit of None \<Rightarrow> 500 | Some n \<Rightarrow> n) 2000"

text \<open>The fields the two result records share, and the comparator both handlers give to
  \<open>sort\<close>: \<open>(b.blockNumber - a.blockNumber) || (b.logIndex - a.logIndex)\<close>.\<close>

record event =
  blockNumber :: int
  logIndex :: int

definition newestFirst :: "'a event_scheme \<Rightarrow> 'a event_scheme \<Rightarrow> int" where
  "newestFirst a b =
     (if blockNumber b - blockNumber a \<noteq> 0 then blockNumber b - blockNumber a
      else logIndex b - logIndex a)"

text \<open>
  \<open>Array.prototype.sort(compareFn)\<close>: a stable sort that puts \<open>a\<close> before \<open>b\<close> when
  \<open>compareFn(a, b) < 0\<close> and keeps the order of elements that compare equal.
\<close>

fun insertBy :: "('a \<Rightarrow> 'a \<Rightarrow> int) \<Rightarrow> 'a \<Rightarrow> 'a list \<Rightarrow> 'a list" where
  "insertBy cmp x [] = [x]"
| "insertBy cmp x (y # ys) = (if cmp x y \<le> 0 then x # y # ys else y # insertBy cmp x ys)"

definition array_sort :: "('a \<Rightarrow> 'a \<Rightarrow> int) \<Rightarrow> 'a list \<Rightarrow> 'a list" where
  "array_sort cmp xs = foldr (insertBy cmp) xs []"

record 'i erc20_response =
  er_chain :: string
  er_address :: string
  er_token :: string
  tokenMeta :: meta
  scanned_fromBlock :: int
  scanned_toBlock :: int
  er_count :: nat
  er_items :: "'i list"

text \<open>What a handler leaves behind: the cache, the log queries sent (in order), the reply.\<close>

record 'i outcome =
  cache_after :: cache
  logQueries :: "logquery list"
  reply :: "error + 'i erc20_response"

subsection \<open>ERC-20 transfers: \<open>GET /address/:chain/:address/erc20\<close>\<close>

record transfer_item = event +
  t_chain :: string
  txHash :: string
  contract :: string
  tokenSymbol :: string
  tokenName :: string
  tokenDecimals :: nat
  t_from :: string
  t_to :: string
  valueRaw :: int
  valueFormatted :: string
  isSender :: bool
  isReceiver :: bool

text \<open>The loop over the logs of one sub-range, \<open>[...logsFrom, ...logsTo]\<close>. Reading
  \<open>log.topics[1]\<close> or \<open>log.topics[2]\<close> of a log with fewer topics throws.\<close>

fun transferBatch ::
  "globals \<Rightarrow> string \<Rightarrow> string \<Rightarrow> string \<Rightarrow> meta \<Rightarrow> int \<Rightarrow> transfer_item list \<Rightarrow> log list
    \<Rightarrow> error + transfer_item list" where
  "transferBatch g chain address token m limit items [] = Inr items"
| "transferBatch g chain address token m limit items (l # rest) =
     (let raw = data l in
      if \<not> passTokenFilters g chain token raw then
        transferBatch g chain address token m limit items rest
      else if length (topics l) < 3 then Inl TypeError
      else
        (let from = ''0x'' @ drop 26 (topics l ! 1);
             to = ''0x'' @ drop 26 (topics l ! 2);
             items' = items @
               [\<lparr>blockNumber = log_blockNumber l, logIndex = log_logIndex l,
                 t_chain = toLowerCase chain, txHash = transactionHash l,
                 contract = token, tokenSymbol = symbol m, tokenName = name m,
                 tokenDecimals = decimals m, t_from = from, t_to = to,
                 valueRaw = raw, valueFormatted = formatUnits g raw (decimals m),
                 isSender = (toLowerCase from = toLowerCase address),
                 isReceiver = (toLowerCase to = toLowerCase address)\<rparr>]
         in if int (length items') \<ge> limit then Inr items'
            else transferBatch g chain address token m limit items' rest))"

text \<open>The loop over the sub-ranges: two queries each, sent together (\<open>Promise.all\<close>), then
  the batch, then the limit check.\<close>

fun transferScan ::
  "globals \<Rightarrow> provider \<Rightarrow> string \<Rightarrow> string \<Rightarrow> string \<Rightarrow> meta \<Rightarrow> int \<Rightarrow> logquery list
    \<Rightarrow> transfer_item list \<Rightarrow> range list \<Rightarrow> logquery list \<times> (error + transfer_item list)" where
  "transferScan g p chain address token m limit sent items [] = (sent, Inr items)"
| "transferScan g p chain address token m limit sent items (r # rs) =
     (let TRANSFER = ethers_id g ''Transfer(address,address,uint256)'';
          qFrom = \<lparr>q_address = token, q_fromBlock = r_fromBlock r, q_toBlock = r_toBlock r,
                   q_topics = [Some TRANSFER, Some (addrTopic address), None]\<rparr>;
          qTo = \<lparr>q_address = token, q_fromBlock = r_fromBlock r, q_toBlock = r_toBlock r,
                 q_topics = [Some TRANSFER, None, Some (addrTopic address)]\<rparr>;
          sent' = sent @ [qFrom, qTo]
      in case getLogs p qFrom of
           Inl e \<Rightarrow> (sent', Inl e)
         | Inr logsFrom \<Rightarrow>
        (case getLogs p qTo of
           Inl e \<Rightarrow> (sent', Inl e)
         | Inr logsTo \<Rightarrow>
        (case transferBatch g chain address token m limit items (logsFrom @ logsTo) of
           Inl e \<Rightarrow> (sent', Inl e)
         | Inr items' \<Rightarrow>
             if int (length items') \<ge> limit then (sent', Inr items')
             else transferScan g p chain address token m limit sent' items' rs)))"

definition erc20Handler ::
  "globals \<Rightarrow> cache \<Rightarrow> int \<Rightarrow> string \<Rightarrow> string \<Rightarrow> string \<Rightarrow> int option \<Rightarrow> int option
    \<Rightarrow> int option \<Rightarrow> transfer_item outcome" where
  "erc20Handler g c now chain address token q_from q_to q_limit =
     (case ensureAddress g address of
        Inl e \<Rightarrow> \<lparr>cache_after = c, logQueries = [], reply = Inl e\<rparr>
      | Inr _ \<Rightarrow>
     (case getProvider g chain of
        Inl e \<Rightarrow> \<lparr>cache_after = c, logQueries = [], reply = Inl e\<rparr>
      | Inr p \<Rightarrow>
     (if \<not> isAddress g token then
        \<lparr>cache_after = c, logQueries = [], reply = Inl InvalidToken\<rparr>
      else
     (case getErc20Meta g c now chain token of
        (c', Inl e) \<Rightarrow> \<lparr>cache_after = c', logQueries = [], reply = Inl e\<rparr>
      | (c', Inr m) \<Rightarrow>
     (case getBlockNumber p of
        Inl e \<Rightarrow> \<lparr>cache_after = c', logQueries = [], reply = Inl e\<rparr>
      | Inr latest \<Rightarrow>
          (let fromBlock = (case q_from of Some n \<Rightarrow> n | None \<Rightarrow> max 0 (latest - 200000));
               toBlock = (case q_to of Some n \<Rightarrow> n | None \<Rightarrow> latest)
           in if fromBlock > toBlock then
                \<lparr>cache_after = c', logQueries = [], reply = Inl InvalidRange\<rparr>
              else
                (let limit = erc20Limit q_limit
                 in case transferScan g p chain address token m limit [] []
                           (chunkRanges fromBlock toBlock) of
                      (sent, Inl e) \<Rightarrow> \<lparr>cache_after = c', logQueries = sent, reply = Inl e\<rparr>
                    | (sent, Inr items) \<Rightarrow>
                        (let ordered = array_sort newestFirst items
                         in \<lparr>cache_after = c', logQueries = sent,
                             reply = Inr \<lparr>er_chain = toLowerCase chain, er_address = address,
                                          er_token = token, tokenMeta = m,
                                          scanned_fromBlock = fromBlock,
                                          scanned_toBlock = toBlock,
                                          er_count = length ordered,
                                          er_items = ordered\<rparr>\<rparr>))))))))"

subsection \<open>ERC-20 approvals: \<open>GET /address/:chain/:address/approvals\<close>\<close>

record approval_item = event +
  a_chain :: string
  a_txHash :: string
  a_contract :: string
  a_tokenSymbol :: string
  a_tokenName :: string
  a_tokenDecimals :: nat
  owner :: string
  spender :: string
  a_valueRaw :: int
  a_valueFormatted :: string

text \<open>The loop over the logs of one sub-range; \<open>log.topics[2]\<close> is read first.\<close>

fun approvalBatch ::
  "globals \<Rightarrow> string \<Rightarrow> string \<Rightarrow> string \<Rightarrow> meta \<Rightarrow> int \<Rightarrow> approval_item list \<Rightarrow> log list
    \<Rightarrow> error + approval_item list" where
  "approvalBatch g chain address token m limit items [] = Inr items"
| "approvalBatch g chain address token m limit items (l # rest) =
     (if length (topics l) < 3 then Inl TypeError
      else
        (let spender' = ''0x'' @ drop 26 (topics l ! 2);
             val = data l;
             items' = items @
               [\<lparr>blockNumber = log_blockNumber l, logIndex = log_logIndex l,
                 a_chain = toLowerCase chain, a_txHash = transactionHash l,
                 a_contract = token, a_tokenSymbol = symbol m, a_tokenName = name m,
                 a_tokenDecimals = decimals m, owner = address, spender = spender',
                 a_valueRaw = val, a_valueFormatted = formatUnits g val (decimals m)\<rparr>]
         in if int (length items') \<ge> limit then Inr items'
            else approvalBatch g chain address token m limit items' rest))"

text \<open>The loop over the sub-ranges: one query each.\<close>

fun approvalScan ::
  "globals \<Rightarrow> provider \<Rightarrow> string \<Rightarrow> string \<Rightarrow> string \<Rightarrow> meta \<Rightarrow> int \<Rightarrow> logquery list
    \<Rightarrow> approval_item list \<Rightarrow> range list \<Rightarrow> logquery list \<times> (error + approval_item list)" where
  "approvalScan g p chain address token m limit sent items [] = (sent, Inr items)"
| "approvalScan g p chain address token m limit sent items (r # rs) =
     (let APPROVAL = ethers_id g ''Approval(address,address,uint256)'';
          qOwner = \<lparr>q_address = token, q_fromBlock = r_fromBlock r, q_toBlock = r_toBlock r,
                    q_topics = [Some APPROVAL, Some (addrTopic address), None]\<rparr>;
          sent' = sent @ [qOwner]
      in case getLogs p qOwner of
           Inl e \<Rightarrow> (sent', Inl e)
         | Inr logs \<Rightarrow>
        (case approvalBatch g chain address token m limit items logs of
           Inl e \<Rightarrow> (sent', Inl e)
         | Inr items' \<Rightarrow>
             if int (length items') \<ge> limit then (sent', Inr items')
             else approvalScan g p chain address token m limit sent' items' rs))"

text \<open>The handler. Unlike \<open>erc20Handler\<close> it has no \<open>fromBlock > toBlock\<close> guard.\<close>

definition approvalsHandler ::
  "globals \<Rightarrow> cache \<Rightarrow> int \<Rightarrow> string \<Rightarrow> string \<Rightarrow> string \<Rightarrow> int option \<Rightarrow> int option
    \<Rightarrow> int option \<Rightarrow> approval_item outcome" where
  "approvalsHandler g c now chain address token q_from q_to q_limit =
     (case ensureAddress g address of
        Inl e \<Rightarrow> \<lparr>cache_after = c, logQueries = [], reply = Inl e\<rparr>
      | Inr _ \<Rightarrow>
     (case getProvider g chain of
        Inl e \<Rightarrow> \<lparr>cache_after = c, logQueries = [], reply = Inl e\<rparr>
      | Inr p \<Rightarrow>
     (if \<not> isAddress g token then
        \<lparr>cache_after = c, logQueries = [], reply = Inl InvalidToken\<rparr>
      else
     (case getErc20Meta g c now chain token of
        (c', Inl e) \<Rightarrow> \<lparr>cache_after = c', logQueries = [], reply = Inl e\<rparr>
      | (c', Inr m) \<Rightarrow>
     (case getBlockNumber p of
        Inl e \<Rightarrow> \<lparr>cache_after = c', logQueries = [], reply = Inl e\<rparr>
      | Inr latest \<Rightarrow>
          (let fromBlock = (case q_from of Some n \<Rightarrow> n | None \<Rightarrow> max 0 (latest - 200000));
               toBlock = (case q_to of Some n \<Rightarrow> n | None \<Rightarrow> latest);
               limit = erc20Limit q_limit
           in case approvalScan g p chain address token m limit [] []
                     (chunkRanges fromBlock toBlock) of
                (sent, Inl e) \<Rightarrow> \<lparr>cache_after = c', logQueries = sent, reply = Inl e\<rparr>
              | (sent, Inr items) \<Rightarrow>
                  (let ordered = array_sort newestFirst items
                   in \<lparr>cache_after = c', logQueries = sent,
                       reply = Inr \<lparr>er_chain = toLowerCase chain, er_address = address,
                                    er_token = token, tokenMeta = m,
                                    scanned_fromBlock = fromBlock,
                                    scanned_toBlock = toBlock,
                                    er_count = length ordered,
                                    er_items = ordered\<rparr>\<rparr>)))))))"





text \<open>A cache entry that \<open>getErc20Meta\<close> would return without asking upstream.\<close>

definition cacheFresh :: "meta_entry option \<Rightarrow> int \<Rightarrow> bool" where
  "cacheFresh hit now =
     (case hit of None \<Rightarrow> False | Some h \<Rightarrow> now - ts h < 6 * 60 * 60 * 1000)"

text \<open>The module-level bindings with another filter configuration.\<close>

definition withFilters ::
  "globals \<Rightarrow> config \<Rightarrow> (string \<rightharpoonup> string set) \<Rightarrow> (string \<rightharpoonup> string set) \<Rightarrow> globals" where
  "withFilters g cfg wl bl = g\<lparr>CONFIG := cfg, TOKEN_WHITELIST := wl, TOKEN_BLACKLIST := bl\<rparr>"

subsection \<open>A concrete scenario\<close>

text \<open>
  One chain (\<open>eth\<close>) whose provider is at block 1000. The token answers \<open>symbol()\<close>, fails
  \<open>name()\<close> and reports 0 decimals. Three logs match the watched address as first indexed
  argument: one of amount 0 in block 120, two of amounts 5 and 9 in block 150. Block 1000
  holds two transactions of the watched address, of values 0 and \<open>10^15\<close> wei. The
  \<open>ethers\<close> functions are simple stand-ins.
\<close>

definition demo_address :: string where
  "demo_address = ''0x00000000000000000000000000000000000000A1''"

definition demo_peer :: string where
  "demo_peer = ''0x00000000000000000000000000000000000000b2''"

definition demo_token :: string where
  "demo_token = ''0x00000000000000000000000000000000000000c3''"

definition demo_log :: "int \<Rightarrow> int \<Rightarrow> int \<Rightarrow> log" where
  "demo_log bn li v =
     \<lparr>transactionHash = ''0xfeed'', log_blockNumber = bn, log_logIndex = li,
      topics = [''event'', addrTopic demo_address, addrTopic demo_peer], data = v\<rparr>"

definition demo_logs :: "log list" where
  "demo_logs = [demo_log 120 3 0, demo_log 150 1 5, demo_log 150 7 9]"

definition demo_block :: block where
  "demo_block =
     \<lparr>timestamp = 1700000000,
      transactions =
        [\<lparr>tx_hash = ''0x01'', tx_blockNumber = 1000, tx_from = Some demo_address,
          tx_to = Some demo_peer, tx_value = Some 0\<rparr>,
         \<lparr>tx_hash = ''0x02'', tx_blockNumber = 1000, tx_from = Some demo_peer,
          tx_to = Some demo_address, tx_value = Some 1000000000000000\<rparr>]\<rparr>"

definition demo_provider :: provider where
  "demo_provider =
     \<lparr>getBlockNumber = Inr 1000,
      getBlockWithTransactions = (\<lambda>bn. Inr (if bn = 1000 then Some demo_block else None)),
      getLogs = (\<lambda>q. Inr (case q_topics q of
                            [_, Some _, None] \<Rightarrow>
                              filter (\<lambda>l. q_fromBlock q \<le> log_blockNumber l
                                          \<and> log_blockNumber l \<le> q_toBlock q) demo_logs
                          | _ \<Rightarrow> [])),
      call_symbol = (\<lambda>_. Inr ''TKN''),
      call_name = (\<lambda>_. Inl UpstreamError),
      call_decimals = (\<lambda>_. Inr 0)\<rparr>"

definition demo_globals :: globals where
  "demo_globals =
     \<lparr>CONFIG = \<lparr>ALLOW_ALL_TOKENS = False, SKIP_ZERO_VALUE = True,
                MIN_NATIVE_WEI = 0, MIN_ERC20_RAW = 0\<rparr>,
      TOKEN_WHITELIST = [''eth'' \<mapsto> {}],
      TOKEN_BLACKLIST = [''eth'' \<mapsto> {}],
      PROVIDERS = [''eth'' \<mapsto> demo_provider],
      isAddress = (\<lambda>s. length s = 42 \<and> take 2 s = ''0x''),
      ethers_id = (\<lambda>s. ''event''),
      formatEther = (\<lambda>v. if v = 0 then ''0.0'' else ''0.001''),
      formatUnits = (\<lambda>v d. if d = 18 then ''tiny'' else ''whole'')\<rparr>"

section \<open>Properties\<close>

subsection \<open>The filter pipeline\<close>

lemma passTokenFilters_iff:
  "passTokenFilters g chain token raw =
     (\<not> (case TOKEN_BLACKLIST g chain of None \<Rightarrow> False | Some bl \<Rightarrow> toLowerCase token \<in> bl)
      \<and> \<not> (SKIP_ZERO_VALUE (CONFIG g) \<and> raw = 0)
      \<and> \<not> raw < MIN_ERC20_RAW (CONFIG g)
      \<and> (ALLOW_ALL_TOKENS (CONFIG g)
         \<or> (case TOKEN_WHITELIST g chain of
               None \<Rightarrow> True
             | Some wl \<Rightarrow> wl = {} \<or> toLowerCase token \<in> wl)))"
  by (auto simp: passTokenFilters_def split: option.splits)



text \<open>
  Claim C7. For a raw amount equal to zero with the zero-value skip flag on, the token
  filter and the native filter both reject, whatever the minimum thresholds, the lists and
  \<open>ALLOW_ALL_TOKENS\<close> are.
\<close>

theorem zero_value_rejected:
  assumes "SKIP_ZERO_VALUE (CONFIG g)"
  shows "\<not> passTokenFilters g chain token 0 \<and> \<not> passNativeFilters g 0"
  using assms by (simp add: passTokenFilters_def passNativeFilters_def)

theorem zero_value_rejected_witness:
  "SKIP_ZERO_VALUE (CONFIG (demo_globals\<lparr>CONFIG := (CONFIG demo_globals)\<lparr>ALLOW_ALL_TOKENS := True\<rparr>\<rparr>))
   \<and> \<not> passTokenFilters (demo_globals\<lparr>CONFIG := (CONFIG demo_globals)\<lparr>ALLOW_ALL_TOKENS := True\<rparr>\<rparr>)
         ''eth'' demo_token 0
   \<and> \<not> passNativeFilters (demo_globals\<lparr>CONFIG := (CONFIG demo_globals)\<lparr>ALLOW_ALL_TOKENS := True\<rparr>\<rparr>) 0"
proof -
  let ?g = "demo_globals\<lparr>CONFIG := (CONFIG demo_globals)\<lparr>ALLOW_ALL_TOKENS := True\<rparr>\<rparr>"
  have h: "SKIP_ZERO_VALUE (CONFIG ?g)" by (simp add: demo_globals_def)
  from h zero_value_rejected[OF h, of "''eth''" demo_token] show ?thesis by blast
qed

subsection \<open>Range chunking\<close>








subsection \<open>Ordering of the event lists\<close>

lemma insertBy_mset: "mset (insertBy cmp x ys) = add_mset x (mset ys)"
  by (induction ys) auto

lemma array_sort_mset: "mset (array_sort cmp xs) = mset xs"
  by (induction xs) (auto simp: array_sort_def insertBy_mset)

lemma array_sort_set: "set (array_sort cmp xs) = set xs"
  using array_sort_mset[of cmp xs] by (metis set_mset_mset)








text \<open>What a successful reply of each handler is made of.\<close>

lemma erc20Handler_Inr:
  assumes "reply (erc20Handler g c now chain address token q_from q_to q_limit) = Inr r"
  obtains p c' m latest sent items where
    "isAddress g address" "getProvider g chain = Inr p" "isAddress g token"
    "getErc20Meta g c now chain token = (c', Inr m)"
    "getBlockNumber p = Inr latest"
    "transferScan g p chain address token m (erc20Limit q_limit) [] []
       (chunkRanges (case q_from of Some n \<Rightarrow> n | None \<Rightarrow> max 0 (latest - 200000))
                    (case q_to of Some n \<Rightarrow> n | None \<Rightarrow> latest)) = (sent, Inr items)"
    "er_items r = array_sort newestFirst items"
    "er_count r = length (er_items r)"
    "tokenMeta r = m"
  using assms
  unfolding erc20Handler_def ensureAddress_def Let_def
  by (auto split: sum.splits prod.splits if_splits)




subsection \<open>The result limit of the ERC-20 scans\<close>










text \<open>With \<open>limit=0\<close> the first admitted item is appended before the limit is looked at,
  and the scan stops there.\<close>

lemma erc20_limit_zero_returns_one:
  "erc20Limit (Some 0) = 0
   \<and> map valueRaw (er_items (projr (reply (erc20Handler demo_globals Map.empty 0 ''eth''
          demo_address demo_token None None (Some 0))))) = [5]"
  by code_simp

subsection \<open>The token filter in the ERC-20 scans\<close>

lemma transferBatch_admitted:
  assumes "transferBatch g chain address token m limit items logs = Inr items'"
    and "\<forall>i \<in> set items. passTokenFilters g chain token (valueRaw i)
            \<and> tokenDecimals i = decimals m
            \<and> valueFormatted i = formatUnits g (valueRaw i) (decimals m)"
  shows "\<forall>i \<in> set items'. passTokenFilters g chain token (valueRaw i)
            \<and> tokenDecimals i = decimals m
            \<and> valueFormatted i = formatUnits g (valueRaw i) (decimals m)"
  using assms
proof (induction logs arbitrary: items)
  case Nil
  then show ?case by simp
next
  case (Cons l rest)
  show ?case
  proof (cases "passTokenFilters g chain token (data l)")
    case False
    with Cons.prems(1) have "transferBatch g chain address token m limit items rest = Inr items'"
      by simp
    from Cons.IH[OF this Cons.prems(2)] show ?thesis .
  next
    case True
    with Cons.prems(1) have t: "\<not> length (topics l) < 3"
      by (auto split: if_splits)
    define it where "it =
      \<lparr>blockNumber = log_blockNumber l, logIndex = log_logIndex l,
       t_chain = toLowerCase chain, txHash = transactionHash l,
       contract = token, tokenSymbol = symbol m, tokenName = name m,
       tokenDecimals = decimals m, t_from = ''0x'' @ drop 26 (topics l ! 1),
       t_to = ''0x'' @ drop 26 (topics l ! 2),
       valueRaw = data l, valueFormatted = formatUnits g (data l) (decimals m),
       isSender = (toLowerCase (''0x'' @ drop 26 (topics l ! 1)) = toLowerCase address),
       isReceiver = (toLowerCase (''0x'' @ drop 26 (topics l ! 2)) = toLowerCase address)\<rparr>"
    have it: "valueRaw it = data l" "tokenDecimals it = decimals m"
          "valueFormatted it = formatUnits g (data l) (decimals m)"
      by (simp_all add: it_def)
    have k: "items' = items @ [it]
              \<or> transferBatch g chain address token m limit (items @ [it]) rest = Inr items'"
      using Cons.prems(1) True t by (simp add: Let_def it_def split: if_splits)
    have ok: "\<forall>i \<in> set (items @ [it]). passTokenFilters g chain token (valueRaw i)
        \<and> tokenDecimals i = decimals m
        \<and> valueFormatted i = formatUnits g (valueRaw i) (decimals m)"
      using Cons.prems(2) True it by auto
    from k show ?thesis
    proof
      assume "items' = items @ [it]" with ok show ?thesis by simp
    next
      assume "transferBatch g chain address token m limit (items @ [it]) rest = Inr items'"
      from Cons.IH[OF this ok] show ?thesis .
    qed
  qed
qed


lemma transferScan_admitted:
  assumes "transferScan g p chain address token m limit sent items rs = (sent', Inr items')"
    and "\<forall>i \<in> set items. passTokenFilters g chain token (valueRaw i)
            \<and> tokenDecimals i = decimals m
            \<and> valueFormatted i = formatUnits g (valueRaw i) (decimals m)"
  shows "\<forall>i \<in> set items'. passTokenFilters g chain token (valueRaw i)
            \<and> tokenDecimals i = decimals m
            \<and> valueFormatted i = formatUnits g (valueRaw i) (decimals m)"
  using assms
proof (induction rs arbitrary: sent items)
  case Nil
  then show ?case by simp
next
  case (Cons r rs)
  from Cons.prems(1) obtain logsFrom logsTo mid where
    b: "transferBatch g chain address token m limit items (logsFrom @ logsTo) = Inr mid"
    and k: "items' = mid \<or>
            (\<exists>s. transferScan g p chain address token m limit s mid rs = (sent', Inr items'))"
    by (auto simp: Let_def split: sum.splits if_splits)
  note mid = transferBatch_admitted[OF b Cons.prems(2)]
  from k show ?case
  proof
    assume "items' = mid" with mid show ?thesis by simp
  next
    assume "\<exists>s. transferScan g p chain address token m limit s mid rs = (sent', Inr items')"
    then obtain s where
      "transferScan g p chain address token m limit s mid rs = (sent', Inr items')" ..
    from Cons.IH[OF this mid] show ?thesis .
  qed
qed

lemma erc20Handler_admitted:
  assumes h: "reply (erc20Handler g c now chain address token q_from q_to q_limit) = Inr r"
  shows "\<forall>i \<in> set (er_items r). passTokenFilters g chain token (valueRaw i)
            \<and> tokenDecimals i = decimals (tokenMeta r)
            \<and> valueFormatted i = formatUnits g (valueRaw i) (decimals (tokenMeta r))"
proof -
  from h obtain p m latest sent items where
    sc: "transferScan g p chain address token m (erc20Limit q_limit) [] []
       (chunkRanges (case q_from of Some n \<Rightarrow> n | None \<Rightarrow> max 0 (latest - 200000))
                    (case q_to of Some n \<Rightarrow> n | None \<Rightarrow> latest)) = (sent, Inr items)"
    and it: "er_items r = array_sort newestFirst items"
    and m: "tokenMeta r = m"
    by (rule erc20Handler_Inr)
  have "\<forall>i \<in> set items. passTokenFilters g chain token (valueRaw i)
            \<and> tokenDecimals i = decimals m
            \<and> valueFormatted i = formatUnits g (valueRaw i) (decimals m)"
    by (rule transferScan_admitted[OF sc]) simp
  with it m show ?thesis by (simp add: array_sort_set)
qed

text \<open>The approval scan does not read the filter configuration.\<close>

lemma withFilters_sel:
  "isAddress (withFilters g cfg wl bl) = isAddress g"
  "PROVIDERS (withFilters g cfg wl bl) = PROVIDERS g"
  "ethers_id (withFilters g cfg wl bl) = ethers_id g"
  "formatUnits (withFilters g cfg wl bl) = formatUnits g"
  by (simp_all add: withFilters_def)

lemma approvalBatch_withFilters:
  "approvalBatch (withFilters g cfg wl bl) chain address token m limit items logs
     = approvalBatch g chain address token m limit items logs"
  by (induction logs arbitrary: items) (simp_all add: Let_def withFilters_sel)

lemma approvalScan_withFilters:
  "approvalScan (withFilters g cfg wl bl) p chain address token m limit sent items rs
     = approvalScan g p chain address token m limit sent items rs"
  by (induction rs arbitrary: sent items)
     (simp_all add: Let_def withFilters_sel approvalBatch_withFilters split: sum.splits)

lemma getErc20Meta_withFilters:
  "getErc20Meta (withFilters g cfg wl bl) c now chain token = getErc20Meta g c now chain token"
  by (simp add: getErc20Meta_def fetchErc20Meta_def getProvider_def withFilters_sel)

lemma approvalsHandler_withFilters:
  "approvalsHandler (withFilters g cfg wl bl) c now chain address token q_from q_to q_limit
     = approvalsHandler g c now chain address token q_from q_to q_limit"
  unfolding approvalsHandler_def ensureAddress_def getProvider_def withFilters_sel
    approvalScan_withFilters getErc20Meta_withFilters
  by (rule refl)

text \<open>
  Claim C1, as amended. The token filter is applied to ERC-20 Transfer logs: every item the
  transfer scan returns has a raw amount the filter admits for the chain and token. The
  approval scan includes decoded Approval logs without consulting the token filter: its
  outcome is the same under every filter configuration (flags, thresholds, whitelists and
  blacklists).
\<close>

theorem token_filter_on_transfers_only:
  "(reply (erc20Handler g c now chain address token q_from q_to q_limit) = Inr r
      \<longrightarrow> (\<forall>i \<in> set (er_items r). passTokenFilters g chain token (valueRaw i)))
   \<and> approvalsHandler (withFilters g cfg wl bl) c now chain address token q_from q_to q_limit
       = approvalsHandler g c now chain address token q_from q_to q_limit"
proof (intro conjI impI)
  assume h: "reply (erc20Handler g c now chain address token q_from q_to q_limit) = Inr r"
  from erc20Handler_admitted[OF h]
  show "\<forall>i \<in> set (er_items r). passTokenFilters g chain token (valueRaw i)" by simp
next
  show "approvalsHandler (withFilters g cfg wl bl) c now chain address token q_from q_to q_limit
       = approvalsHandler g c now chain address token q_from q_to q_limit"
    by (rule approvalsHandler_withFilters)
qed

text \<open>The transfer scan of the scenario drops the log of amount 0 and returns the other
  two, both admitted.\<close>

theorem token_filter_on_transfers_only_witness:
  "\<not> isl (reply (erc20Handler demo_globals Map.empty 0 ''eth'' demo_address demo_token
                   None None None))
   \<and> map valueRaw (er_items (projr (reply (erc20Handler demo_globals Map.empty 0 ''eth''
          demo_address demo_token None None None)))) = [9, 5]
   \<and> list_all (\<lambda>i. passTokenFilters demo_globals ''eth'' demo_token (valueRaw i))
         (er_items (projr (reply (erc20Handler demo_globals Map.empty 0 ''eth''
            demo_address demo_token None None None))))"
proof -
  let ?t = "reply (erc20Handler demo_globals Map.empty 0 ''eth'' demo_address demo_token
                     None None None)"
  have t: "\<not> isl ?t" by code_simp
  have v: "map valueRaw (er_items (projr ?t)) = [9, 5]" by code_simp
  from t have ht: "?t = Inr (projr ?t)" by simp
  from ht token_filter_on_transfers_only[where g = demo_globals and c = Map.empty and now = 0
      and chain = "''eth''" and address = demo_address and token = demo_token
      and q_from = None and q_to = None and q_limit = None and r = "projr ?t"]
  have "\<forall>i \<in> set (er_items (projr ?t)).
          passTokenFilters demo_globals ''eth'' demo_token (valueRaw i)" by blast
  then have "list_all (\<lambda>i. passTokenFilters demo_globals ''eth'' demo_token (valueRaw i))
               (er_items (projr ?t))"
    by (simp add: list_all_iff)
  with t v show ?thesis by blast
qed

text \<open>
  The claim as stated fails: the approval scan of the scenario returns the Approval log of
  amount 0, which the token filter rejects (\<open>SKIP_ZERO_VALUE\<close> is on).
\<close>

theorem approvals_pass_token_filter_counterexample:
  "\<not> isl (reply (approvalsHandler demo_globals Map.empty 0 ''eth'' demo_address demo_token
                   None None None))
   \<and> map a_valueRaw (er_items (projr (reply (approvalsHandler demo_globals Map.empty 0 ''eth''
          demo_address demo_token None None None)))) = [9, 5, 0]
   \<and> \<not> passTokenFilters demo_globals ''eth'' demo_token 0"
  by code_simp

subsection \<open>Validation of the block range\<close>

text \<open>With \<open>fromBlock > toBlock\<close> the transfer handler always replies with an error and
  sends no log query; the error is \<open>InvalidRange\<close> once the address, the chain, the token
  and the block height are fine. The approvals handler, on the same inputs, replies
  successfully with no items and sends no log query.\<close>

lemma getErc20Meta_provider_Inr:
  assumes "PROVIDERS g (toLowerCase chain) = Some p"
  shows "\<exists>c' m. getErc20Meta g c now chain token = (c', Inr m)"
proof -
  have "\<exists>m. fetchErc20Meta g chain token = Inr m"
    using assms by (simp add: fetchErc20Meta_def getProvider_def Let_def)
  then show ?thesis
    by (auto simp: getErc20Meta_def Let_def split: option.splits)
qed

lemma erc20Handler_inverted_range:
  assumes "fromBlock > toBlock"
  shows "isl (reply (erc20Handler g c now chain address token (Some fromBlock) (Some toBlock) q_limit))
    \<and> logQueries (erc20Handler g c now chain address token (Some fromBlock) (Some toBlock) q_limit) = []"
  using assms
  by (auto simp: erc20Handler_def ensureAddress_def Let_def
           split: sum.splits prod.splits)

lemma erc20Handler_inverted_range_error:
  assumes "fromBlock > toBlock"
    and "isAddress g address" "PROVIDERS g (toLowerCase chain) = Some p" "isAddress g token"
    and "getBlockNumber p = Inr latest"
  shows "reply (erc20Handler g c now chain address token (Some fromBlock) (Some toBlock) q_limit)
           = Inl InvalidRange"
proof -
  from getErc20Meta_provider_Inr[OF assms(3)] obtain c' m where
    "getErc20Meta g c now chain token = (c', Inr m)" by blast
  with assms show ?thesis
    by (simp add: erc20Handler_def ensureAddress_def getProvider_def Let_def)
qed

lemma approvalsHandler_inverted_range:
  assumes "fromBlock > toBlock"
    and "isAddress g address" "PROVIDERS g (toLowerCase chain) = Some p" "isAddress g token"
    and "getBlockNumber p = Inr latest"
  shows "\<exists>r. reply (approvalsHandler g c now chain address token (Some fromBlock) (Some toBlock)
                      q_limit) = Inr r
            \<and> er_items r = [] \<and> er_count r = 0
            \<and> scanned_fromBlock r = fromBlock \<and> scanned_toBlock r = toBlock"
    and "logQueries (approvalsHandler g c now chain address token (Some fromBlock) (Some toBlock)
                      q_limit) = []"
proof -
  have nil: "chunkRanges fromBlock toBlock = []"
    using assms(1) by (simp add: chunkRanges.simps[of fromBlock toBlock])
  from getErc20Meta_provider_Inr[OF assms(3)]
  have gm: "\<exists>c' m. getErc20Meta g c now chain token = (c', Inr m)" .
  then obtain c' m where gm': "getErc20Meta g c now chain token = (c', Inr m)" by blast
  show "\<exists>r. reply (approvalsHandler g c now chain address token (Some fromBlock) (Some toBlock)
                      q_limit) = Inr r
            \<and> er_items r = [] \<and> er_count r = 0
            \<and> scanned_fromBlock r = fromBlock \<and> scanned_toBlock r = toBlock"
    using assms(2-5) nil gm'
    by (simp add: approvalsHandler_def ensureAddress_def getProvider_def Let_def array_sort_def)
  show "logQueries (approvalsHandler g c now chain address token (Some fromBlock) (Some toBlock)
                      q_limit) = []"
    using assms(2-5) nil gm'
    by (simp add: approvalsHandler_def ensureAddress_def getProvider_def Let_def array_sort_def)
qed

text \<open>
  Claim C2 asks both ERC-20 scans to fail with a validation error, before any log query,
  when \<open>fromBlock > toBlock\<close>. At \<open>fromBlock=200\<close>, \<open>toBlock=100\<close> the transfer handler does
  so (\<open>InvalidRange\<close>, no query sent). The approvals handler has no such guard: it sends no
  query either, but replies successfully with an empty item list and the inverted range
  as scanned.
\<close>

theorem approvals_accept_inverted_range:
  "\<not> isl (reply (approvalsHandler demo_globals Map.empty 0 ''eth'' demo_address demo_token
                   (Some 200) (Some 100) None))
   \<and> er_items (projr (reply (approvalsHandler demo_globals Map.empty 0 ''eth'' demo_address
                   demo_token (Some 200) (Some 100) None))) = []
   \<and> scanned_fromBlock (projr (reply (approvalsHandler demo_globals Map.empty 0 ''eth''
                   demo_address demo_token (Some 200) (Some 100) None))) = 200
   \<and> scanned_toBlock (projr (reply (approvalsHandler demo_globals Map.empty 0 ''eth''
                   demo_address demo_token (Some 200) (Some 100) None))) = 100
   \<and> logQueries (approvalsHandler demo_globals Map.empty 0 ''eth'' demo_address demo_token
                   (Some 200) (Some 100) None) = []
   \<and> reply (erc20Handler demo_globals Map.empty 0 ''eth'' demo_address demo_token
                   (Some 200) (Some 100) None) = Inl InvalidRange
   \<and> logQueries (erc20Handler demo_globals Map.empty 0 ''eth'' demo_address demo_token
                   (Some 200) (Some 100) None) = []
   \<and> ValidationError InvalidRange"
  by code_simp

subsection \<open>Token metadata lookup\<close>

lemma fetchErc20Meta_provider:
  assumes "PROVIDERS g (toLowerCase chain) = Some p"
  shows "fetchErc20Meta g chain token =
     Inr \<lparr>symbol = (case call_symbol p token of Inl _ \<Rightarrow> ''UNK'' | Inr s \<Rightarrow> s),
          name = (case call_name p token of Inl _ \<Rightarrow> ''Unknown Token'' | Inr s \<Rightarrow> s),
          decimals = (case call_decimals p token of
                        Inl _ \<Rightarrow> 18
                      | Inr d \<Rightarrow> if d = 0 then 18 else unat d)\<rparr>"
  using assms
  by (auto simp: fetchErc20Meta_def getProvider_def Let_def unat_eq_0 split: sum.splits)


lemma getErc20Meta_stale:
  assumes "\<not> cacheFresh (cacheGetErc20Meta c chain token) now"
  shows "getErc20Meta g c now chain token =
     (case fetchErc20Meta g chain token of
        Inl e \<Rightarrow> (c, Inl e)
      | Inr m \<Rightarrow> (cacheSetErc20Meta c now chain token m, Inr m))"
  using assms by (auto simp: getErc20Meta_def cacheFresh_def Let_def split: option.splits)

lemma getErc20Meta_part000_stale:
  assumes "\<not> cacheFresh (getCachedMeta c chain token) now"
  shows "getErc20Meta_part000 g c now chain token =
     (case fetchErc20Meta g chain token of
        Inl e \<Rightarrow> (c, Inl e)
      | Inr m \<Rightarrow> (setCachedMeta c now chain token m, Inr m))"
  using assms by (auto simp: getErc20Meta_part000_def cacheFresh_def Let_def split: option.splits)



lemma cacheSet_get:
  "cacheGetErc20Meta (cacheSetErc20Meta c now chain token m) chain token
     = Some \<lparr>symbol = symbol m, name = name m, decimals = decimals m, ts = now\<rparr>"
  "getCachedMeta (setCachedMeta c now chain token m) chain token
     = Some \<lparr>symbol = symbol m, name = name m, decimals = decimals m, ts = now\<rparr>"
  by (simp_all add: cacheGetErc20Meta_def cacheSetErc20Meta_def getCachedMeta_def
        setCachedMeta_def)




text \<open>
  Claim C10. When the \<open>decimals()\<close> call of a token succeeds and returns 0, a lookup that
  asks upstream returns and stores \<open>decimals = 18\<close> (in both copies of the function), and
  the transfer handler, which takes the decimals from that lookup, reports
  \<open>tokenDecimals = 18\<close> and formats every amount with 18 decimals.
\<close>

theorem zero_decimals_become_18:
  assumes "PROVIDERS g (toLowerCase chain) = Some p"
    and "call_decimals p token = Inr 0"
  shows "(\<not> cacheFresh (cacheGetErc20Meta c chain token) now \<longrightarrow>
            (\<exists>m c'. getErc20Meta g c now chain token = (c', Inr m) \<and> decimals m = 18
               \<and> map_option decimals (cacheGetErc20Meta c' chain token) = Some 18))
       \<and> (\<not> cacheFresh (getCachedMeta c chain token) now \<longrightarrow>
            (\<exists>m c'. getErc20Meta_part000 g c now chain token = (c', Inr m) \<and> decimals m = 18
               \<and> map_option decimals (getCachedMeta c' chain token) = Some 18))
       \<and> (\<not> cacheFresh (cacheGetErc20Meta c chain token) now
            \<and> reply (erc20Handler g c now chain address token q_from q_to q_limit) = Inr r
          \<longrightarrow> decimals (tokenMeta r) = 18
              \<and> (\<forall>i \<in> set (er_items r).
                    tokenDecimals i = 18 \<and> valueFormatted i = formatUnits g (valueRaw i) 18))"
proof (intro conjI impI)
  assume stale: "\<not> cacheFresh (cacheGetErc20Meta c chain token) now"
  have f: "fetchErc20Meta g chain token =
      Inr \<lparr>symbol = (case call_symbol p token of Inl _ \<Rightarrow> ''UNK'' | Inr s \<Rightarrow> s),
           name = (case call_name p token of Inl _ \<Rightarrow> ''Unknown Token'' | Inr s \<Rightarrow> s),
           decimals = 18\<rparr>"
    using fetchErc20Meta_provider[OF assms(1), of token] assms(2) by simp
  show "\<exists>m c'. getErc20Meta g c now chain token = (c', Inr m) \<and> decimals m = 18
               \<and> map_option decimals (cacheGetErc20Meta c' chain token) = Some 18"
    by (simp add: getErc20Meta_stale[OF stale] f cacheSet_get)
next
  assume stale: "\<not> cacheFresh (getCachedMeta c chain token) now"
  have f: "fetchErc20Meta g chain token =
      Inr \<lparr>symbol = (case call_symbol p token of Inl _ \<Rightarrow> ''UNK'' | Inr s \<Rightarrow> s),
           name = (case call_name p token of Inl _ \<Rightarrow> ''Unknown Token'' | Inr s \<Rightarrow> s),
           decimals = 18\<rparr>"
    using fetchErc20Meta_provider[OF assms(1), of token] assms(2) by simp
  show "\<exists>m c'. getErc20Meta_part000 g c now chain token = (c', Inr m) \<and> decimals m = 18
               \<and> map_option decimals (getCachedMeta c' chain token) = Some 18"
    by (simp add: getErc20Meta_part000_stale[OF stale] f cacheSet_get)
next
  assume h: "\<not> cacheFresh (cacheGetErc20Meta c chain token) now
            \<and> reply (erc20Handler g c now chain address token q_from q_to q_limit) = Inr r"
  then have stale: "\<not> cacheFresh (cacheGetErc20Meta c chain token) now"
    and rep: "reply (erc20Handler g c now chain address token q_from q_to q_limit) = Inr r"
    by simp_all
  have f: "fetchErc20Meta g chain token =
      Inr \<lparr>symbol = (case call_symbol p token of Inl _ \<Rightarrow> ''UNK'' | Inr s \<Rightarrow> s),
           name = (case call_name p token of Inl _ \<Rightarrow> ''Unknown Token'' | Inr s \<Rightarrow> s),
           decimals = 18\<rparr>"
    using fetchErc20Meta_provider[OF assms(1), of token] assms(2) by simp
  from rep obtain c' m where "getErc20Meta g c now chain token = (c', Inr m)" "tokenMeta r = m"
    by (rule erc20Handler_Inr)
  with f have "Inr \<lparr>symbol = (case call_symbol p token of Inl _ \<Rightarrow> ''UNK'' | Inr s \<Rightarrow> s),
           name = (case call_name p token of Inl _ \<Rightarrow> ''Unknown Token'' | Inr s \<Rightarrow> s),
           decimals = 18\<rparr> = (Inr (tokenMeta r) :: error + meta)"
    by (simp add: getErc20Meta_stale[OF stale])
  then have "tokenMeta r = \<lparr>symbol = (case call_symbol p token of Inl _ \<Rightarrow> ''UNK'' | Inr s \<Rightarrow> s),
           name = (case call_name p token of Inl _ \<Rightarrow> ''Unknown Token'' | Inr s \<Rightarrow> s),
           decimals = 18\<rparr>" by simp
  then have d: "decimals (tokenMeta r) = 18" by simp
  then show "decimals (tokenMeta r) = 18" .
  from erc20Handler_admitted[OF rep] d
  show "\<forall>i \<in> set (er_items r).
          tokenDecimals i = 18 \<and> valueFormatted i = formatUnits g (valueRaw i) 18"
    by simp
qed

text \<open>The scenario's token reports 0 decimals; its amounts are formatted with 18.\<close>

theorem zero_decimals_become_18_witness:
  "PROVIDERS demo_globals (toLowerCase ''eth'') = Some demo_provider
   \<and> call_decimals demo_provider demo_token = Inr 0
   \<and> \<not> cacheFresh (cacheGetErc20Meta Map.empty ''eth'' demo_token) 0
   \<and> \<not> isl (reply (erc20Handler demo_globals Map.empty 0 ''eth'' demo_address demo_token
                   None None None))
   \<and> decimals (tokenMeta (projr (reply (erc20Handler demo_globals Map.empty 0 ''eth''
         demo_address demo_token None None None)))) = 18
   \<and> list_all (\<lambda>i. tokenDecimals i = 18
                      \<and> valueFormatted i = formatUnits demo_globals (valueRaw i) 18)
        (er_items (projr (reply (erc20Handler demo_globals Map.empty 0 ''eth''
           demo_address demo_token None None None))))
   \<and> map valueFormatted (er_items (projr (reply (erc20Handler demo_globals Map.empty 0 ''eth''
         demo_address demo_token None None None)))) = [''tiny'', ''tiny'']
   \<and> formatUnits demo_globals 9 0 = ''whole''"
proof -
  let ?t = "reply (erc20Handler demo_globals Map.empty 0 ''eth'' demo_address demo_token
                     None None None)"
  have p: "PROVIDERS demo_globals (toLowerCase ''eth'') = Some demo_provider"
    by (simp add: demo_globals_def toLowerCase_def lowerChar_def)
  have d: "call_decimals demo_provider demo_token = Inr 0"
    by (simp add: demo_provider_def)
  have s: "\<not> cacheFresh (cacheGetErc20Meta Map.empty ''eth'' demo_token) 0"
    by (simp add: cacheFresh_def cacheGetErc20Meta_def)
  have t: "\<not> isl ?t" by code_simp
  from t have ht: "?t = Inr (projr ?t)" by simp
  have v: "map valueFormatted (er_items (projr ?t)) = [''tiny'', ''tiny'']" by code_simp
  have w: "formatUnits demo_globals 9 0 = ''whole''" by (simp add: demo_globals_def)
  from s ht zero_decimals_become_18[OF p d, where c = Map.empty and now = 0
      and address = demo_address and q_from = None and q_to = None and q_limit = None
      and r = "projr ?t"]
  have "decimals (tokenMeta (projr ?t)) = 18
        \<and> (\<forall>i \<in> set (er_items (projr ?t)).
             tokenDecimals i = 18 \<and> valueFormatted i = formatUnits demo_globals (valueRaw i) 18)"
    by blast
  then have "decimals (tokenMeta (projr ?t)) = 18
        \<and> list_all (\<lambda>i. tokenDecimals i = 18
                      \<and> valueFormatted i = formatUnits demo_globals (valueRaw i) 18)
            (er_items (projr ?t))"
    by (simp add: list_all_iff)
  with p d s t v w show ?thesis by blast
qed

subsection \<open>The native scan\<close>






end
